theory Spec2Isabelle
  imports Main
begin

section \<open>Data model (app/models.py)\<close>

text \<open>
  The two currencies of \<^verbatim>\<open>CurrencyEnum\<close>; \<open>currency_value\<close> is the enum's
  \<^verbatim>\<open>.value\<close>.
\<close>

datatype CurrencyEnum = EUR | USD

fun currency_value :: "CurrencyEnum \<Rightarrow> string" where
  "currency_value EUR = ''EUR''"
| "currency_value USD = ''USD''"

text \<open>
  The exceptions that the modelled code can meet. \<^verbatim>\<open>json.JSONDecodeError\<close> is a
  \<^verbatim>\<open>ValueError\<close>; \<^verbatim>\<open>decimal.InvalidOperation\<close> and \<^verbatim>\<open>decimal.Overflow\<close> are
  \<^verbatim>\<open>ArithmeticError\<close>s and not \<^verbatim>\<open>ValueError\<close>s. A database exception names the session
  operation that raised it.
\<close>

datatype db_op = OpenSession | Add | Commit | Refresh | Get | Delete | Exec | Close

datatype error =
    RequestError
  | HTTPStatusError nat
  | KeyError
  | ValueError
  | AttributeError
  | InvalidOperation
  | Overflow
  | SQLAlchemyError db_op

subsection \<open>decimal.Decimal\<close>

text \<open>
  A \<^verbatim>\<open>decimal.Decimal\<close> is carried as its \<^verbatim>\<open>as_tuple()\<close>. A finite one has a sign, a
  coefficient and an exponent, so that \<^verbatim>\<open>Decimal("1.0")\<close> (coefficient 10, exponent -1)
  and \<^verbatim>\<open>Decimal("1")\<close> are different values with the same number. The others are the
  two infinities, and the quiet and the signalling NaN with their sign and payload.
\<close>

datatype decimal =
    DecimalTuple (sign: bool) (coefficient: nat) (exponent: int)
  | Infinity bool
  | NaN bool nat
  | sNaN bool nat

text \<open>
  The default context, which the code never changes: 28 significant digits, rounding
  half to even, exponents between -999999 and 999999, and the traps
  \<^verbatim>\<open>InvalidOperation\<close>, \<^verbatim>\<open>DivisionByZero\<close> and \<^verbatim>\<open>Overflow\<close>, whose signals are
  raised as exceptions.
\<close>

definition prec :: nat where
  "prec = 28"

definition Emax :: int where
  "Emax = 999999"

definition Emin :: int where
  "Emin = - 999999"

definition Etiny :: int where
  "Etiny = Emin - int prec + 1"

definition Etop :: int where
  "Etop = Emax - int prec + 1"

fun ndigits :: "nat \<Rightarrow> nat" where
  \<comment> \<open>the number of digits of a coefficient, \<^verbatim>\<open>len(self._int)\<close>\<close>
  "ndigits n = (if n < 10 then 1 else Suc (ndigits (n div 10)))"

declare ndigits.simps [simp del]

definition round_half_even :: "nat \<Rightarrow> nat \<Rightarrow> nat" where
  \<comment> \<open>the coefficient without its last \<open>k\<close> digits, rounded half to even\<close>
  "round_half_even c k =
     (let q = c div 10 ^ k; r = c mod 10 ^ k
      in if 2 * r > 10 ^ k \<or> (2 * r = 10 ^ k \<and> odd q) then q + 1 else q)"

text \<open>
  \<^verbatim>\<open>Decimal._fix\<close> on a finite result: a zero has its exponent clamped; a coefficient
  of more than 28 digits (or a subnormal one) is rounded, a carry to a 29th digit moves
  the exponent up, and a number above the largest exponent is an \<^verbatim>\<open>Overflow\<close>.
\<close>

definition decimal_fix :: "bool \<Rightarrow> nat \<Rightarrow> int \<Rightarrow> error + decimal" where
  "decimal_fix s c e =
     (if c = 0 then Inr (DecimalTuple s 0 (min (max e Etiny) Emax))
      else
        let exp_min = int (ndigits c) + e - int prec
        in if exp_min > Etop then Inl Overflow
           else
             let exp_min = max exp_min Etiny
             in if e < exp_min then
                  let coeff = round_half_even c (nat (exp_min - e));
                      carry = (coeff \<ge> 10 ^ prec);
                      coeff = (if carry then coeff div 10 else coeff);
                      exp_min = (if carry then exp_min + 1 else exp_min)
                  in if exp_min > Etop then Inl Overflow
                     else Inr (DecimalTuple s coeff exp_min)
                else Inr (DecimalTuple s c e))"

text \<open>
  \<^verbatim>\<open>Decimal.__mul__\<close>: a signalling NaN raises \<^verbatim>\<open>InvalidOperation\<close>, a quiet NaN is
  returned (the first one, its payload cut to 28 digits), an infinity times zero raises
  \<^verbatim>\<open>InvalidOperation\<close>, an infinity times anything else is an infinity, and two finite
  decimals give the xor of the signs, the product of the coefficients and the sum of the
  exponents, fixed to the context.
\<close>

fun decimal_mul :: "decimal \<Rightarrow> decimal \<Rightarrow> error + decimal" where
  "decimal_mul (sNaN s p) b = Inl InvalidOperation"
| "decimal_mul a (sNaN s p) = Inl InvalidOperation"
| "decimal_mul (NaN s p) b = Inr (NaN s (p mod 10 ^ prec))"
| "decimal_mul a (NaN s p) = Inr (NaN s (p mod 10 ^ prec))"
| "decimal_mul (Infinity s1) (Infinity s2) = Inr (Infinity (s1 \<noteq> s2))"
| "decimal_mul (Infinity s1) (DecimalTuple s2 c e) =
     (if c = 0 then Inl InvalidOperation else Inr (Infinity (s1 \<noteq> s2)))"
| "decimal_mul (DecimalTuple s1 c e) (Infinity s2) =
     (if c = 0 then Inl InvalidOperation else Inr (Infinity (s1 \<noteq> s2)))"
| "decimal_mul (DecimalTuple s1 c1 e1) (DecimalTuple s2 c2 e2) =
     decimal_fix (s1 \<noteq> s2) (c1 * c2) (e1 + e2)"

declare decimal_mul.simps [simp del]

text \<open>
  \<^verbatim>\<open>==\<close> on two decimals compares the numbers: a NaN equals nothing, and a
  signalling NaN raises \<^verbatim>\<open>InvalidOperation\<close>.
\<close>

fun decimal_eq :: "decimal \<Rightarrow> decimal \<Rightarrow> error + bool" where
  "decimal_eq (sNaN s p) b = Inl InvalidOperation"
| "decimal_eq a (sNaN s p) = Inl InvalidOperation"
| "decimal_eq (DecimalTuple s1 c1 e1) (DecimalTuple s2 c2 e2) =
     (let m = min e1 e2
      in Inr (c1 * 10 ^ nat (e1 - m) = c2 * 10 ^ nat (e2 - m) \<and> (s1 = s2 \<or> c1 = 0)))"
| "decimal_eq (Infinity s1) (Infinity s2) = Inr (s1 = s2)"
| "decimal_eq a b = Inr False"

definition Decimal_0 :: decimal where
  \<comment> \<open>\<^verbatim>\<open>Decimal("0")\<close>\<close>
  "Decimal_0 = DecimalTuple False 0 0"

definition Decimal_1_0 :: decimal where
  \<comment> \<open>\<^verbatim>\<open>Decimal("1.0")\<close>\<close>
  "Decimal_1_0 = DecimalTuple False 10 (- 1)"

subsection \<open>Dates and entries\<close>

text \<open>
  A \<^verbatim>\<open>datetime.date\<close> with its \<^verbatim>\<open>isoformat()\<close> (\<^verbatim>\<open>%04d-%02d-%02d\<close>; a date's year
  is at most 9999). A \<^verbatim>\<open>datetime\<close> is a reading of the clock.
\<close>

record date =
  year :: nat
  month :: nat
  day :: nat

type_synonym datetime = nat

definition digit :: "nat \<Rightarrow> char" where
  "digit n = ''0123456789'' ! (n mod 10)"

definition isoformat :: "date \<Rightarrow> string" where
  "isoformat d =
     [digit (year d div 1000), digit (year d div 100), digit (year d div 10), digit (year d)]
     @ ''-'' @ [digit (month d div 10), digit (month d)]
     @ ''-'' @ [digit (day d div 10), digit (day d)]"

text \<open>
  \<^verbatim>\<open>BeerEntryCreate\<close> is what the caller of the service supplies. \<^verbatim>\<open>BeerEntry\<close>, the
  persistent row, has the same four fields and five more; the primary key \<^verbatim>\<open>id\<close> is
  the field \<open>id_pk\<close> here, \<open>None\<close> until the table assigns it.
\<close>

record BeerEntryCreate =
  beer_name :: string
  original_price :: decimal
  original_currency :: CurrencyEnum
  purchase_date :: date

record BeerEntry = BeerEntryCreate +
  id_pk :: "int option"
  eur_price :: decimal
  usd_price :: decimal
  exchange_rate :: decimal
  created_at :: datetime

section \<open>The rate provider, the database and the state of the world\<close>

text \<open>
  What \<^verbatim>\<open>json.loads\<close> builds: \<open>JNull\<close> is Python's \<^verbatim>\<open>None\<close>, an object is the dict as
  an association list. A number is carried as the decimal that \<^verbatim>\<open>Decimal(str(x))\<close>
  makes of it: \<^verbatim>\<open>1\<close> gives coefficient 1 and exponent 0, \<^verbatim>\<open>1.1\<close> gives coefficient 11
  and exponent -1, \<^verbatim>\<open>1e400\<close> is the float \<^verbatim>\<open>inf\<close> and gives \<open>Infinity False\<close>, and
  \<^verbatim>\<open>NaN\<close> gives \<open>NaN False 0\<close>.
\<close>

datatype json =
    JNull
  | JBool bool
  | JNumber decimal
  | JString string
  | JArray "json list"
  | JObject "(string \<times> json) list"

text \<open>
  The answer to one \<^verbatim>\<open>client.get(url)\<close>: a transport failure (any
  \<^verbatim>\<open>httpx.RequestError\<close>, timeouts included), or a response with its status code and its
  body as \<^verbatim>\<open>response.json()\<close> reads it (\<open>None\<close>: the content is not JSON).
\<close>

datatype http_result = TransportError | Response nat "json option"

text \<open>
  The environment of a call: the rate provider, \<^verbatim>\<open>Decimal(s)\<close> on a string
  (\<open>None\<close>: \<^verbatim>\<open>InvalidOperation\<close>), the clock that \<^verbatim>\<open>datetime.utcnow\<close> reads, the
  session operations at which the database raises, and the database engine's decimal
  column.
\<close>

text \<open>
  Modelled from the spec: the database engine is not among the sources. \<open>to_column env p s\<close>
  is what a decimal column of precision \<open>p\<close> and scale \<open>s\<close> ("decimal columns with fixed
  precision/scale", "stored at whatever precision the field allows: 2 fractional digits
  for prices, 6 for the rate") makes of a value written to it and read back; \<open>None\<close> is a
  value that the engine rejects. How an engine rounds, and what it rejects, is its own.
\<close>

record env =
  http_get :: "string \<Rightarrow> http_result"
  Decimal_of_str :: "string \<Rightarrow> decimal option"
  utcnow :: datetime
  faults :: "db_op set"
  to_column :: "nat \<Rightarrow> nat \<Rightarrow> decimal \<Rightarrow> decimal option"

text \<open>
  Modelled from the spec: the module \<^verbatim>\<open>app.database\<close> (\<^verbatim>\<open>get_session\<close>) and the table
  behind it are not among the sources. The table \<^verbatim>\<open>beer_entries\<close> is the list of its
  committed rows in insertion order ("ordering is storage-native (insertion order in the
  reference behavior)") and the next identifier to assign ("\<^verbatim>\<open>id\<close> auto-assigned").
\<close>

record store =
  rows :: "BeerEntry list"
  next_id :: int

text \<open>
  The state that the service reads and changes: the table, the notifications shown by
  \<^verbatim>\<open>ui.notify\<close> (the message prefix and the exception whose text follows it), and the
  URLs requested from the rate provider.
\<close>

record world =
  db :: store
  notified :: "(string \<times> error) list"
  requested :: "string list"

section \<open>ExchangeRateService (app/models.py)\<close>

definition BASE_URL :: string where
  "BASE_URL = ''https://api.exchangerate-api.com/v4/historical''"

definition raise_for_status :: "nat \<Rightarrow> error + unit" where
  \<comment> \<open>a status code outside 200..299 raises \<^verbatim>\<open>httpx.HTTPStatusError\<close>\<close>
  "raise_for_status status =
     (if 200 \<le> status \<and> status < 300 then Inr () else Inl (HTTPStatusError status))"

definition response_json :: "json option \<Rightarrow> error + json" where
  "response_json body = (case body of None \<Rightarrow> Inl ValueError | Some data \<Rightarrow> Inr data)"

fun py_get :: "json \<Rightarrow> string \<Rightarrow> json \<Rightarrow> error + json" where
  \<comment> \<open>\<^verbatim>\<open>x.get(key, default)\<close>: only a dict has the method\<close>
  "py_get (JObject kvs) key dflt =
     Inr (case map_of kvs key of Some v \<Rightarrow> v | None \<Rightarrow> dflt)"
| "py_get _ key dflt = Inl AttributeError"

fun Decimal_str :: "env \<Rightarrow> json \<Rightarrow> error + decimal" where
  \<comment> \<open>\<^verbatim>\<open>Decimal(str(rate))\<close>\<close>
  "Decimal_str env (JNumber d) = Inr d"
| "Decimal_str env (JString s) =
     (case Decimal_of_str env s of Some d \<Rightarrow> Inr d | None \<Rightarrow> Inl InvalidOperation)"
| "Decimal_str env _ = Inl InvalidOperation"

fun caught :: "error \<Rightarrow> bool" where
  \<comment> \<open>\<^verbatim>\<open>except (httpx.RequestError, httpx.HTTPStatusError, KeyError, ValueError)\<close>\<close>
  "caught RequestError = True"
| "caught (HTTPStatusError _) = True"
| "caught KeyError = True"
| "caught ValueError = True"
| "caught _ = False"

text \<open>
  The body of the \<^verbatim>\<open>try\<close> of \<^verbatim>\<open>get_exchange_rate\<close>, from the answer of the provider on:
  \<open>Inr None\<close> is falling out of the \<^verbatim>\<open>if rate is not None\<close> to the final
  \<^verbatim>\<open>return None\<close>.
\<close>

definition read_rate :: "env \<Rightarrow> http_result \<Rightarrow> CurrencyEnum \<Rightarrow> error + decimal option" where
  "read_rate env answer to_currency =
     (case answer of
        TransportError \<Rightarrow> Inl RequestError
      | Response status body \<Rightarrow>
          (case raise_for_status status of
             Inl e \<Rightarrow> Inl e
           | Inr _ \<Rightarrow>
          (case response_json body of
             Inl e \<Rightarrow> Inl e
           | Inr data \<Rightarrow>
          (case py_get data ''rates'' (JObject []) of
             Inl e \<Rightarrow> Inl e
           | Inr rates \<Rightarrow>
          (case py_get rates (currency_value to_currency) JNull of
             Inl e \<Rightarrow> Inl e
           | Inr rate \<Rightarrow>
               if rate \<noteq> JNull
               then (case Decimal_str env rate of Inl e \<Rightarrow> Inl e | Inr d \<Rightarrow> Inr (Some d))
               else Inr None)))))"

definition get_exchange_rate ::
  "env \<Rightarrow> CurrencyEnum \<Rightarrow> CurrencyEnum \<Rightarrow> date \<Rightarrow> world \<Rightarrow> (error + decimal option) \<times> world" where
  "get_exchange_rate env from_currency to_currency rate_date w =
     (if from_currency = to_currency then (Inr (Some Decimal_1_0), w)
      else
        let url = BASE_URL @ ''/'' @ currency_value from_currency @ ''/'' @ isoformat rate_date;
            w' = w\<lparr>requested := requested w @ [url]\<rparr>
        in (case read_rate env (http_get env url) to_currency of
              Inl e \<Rightarrow> if caught e then (Inr None, w') else (Inl e, w')
            | Inr r \<Rightarrow> (Inr r, w')))"

text \<open>
  \<^verbatim>\<open>calculate_prices\<close> has no \<^verbatim>\<open>try\<close>: an exception of the lookup or of the
  multiplication propagates.
\<close>

definition calculate_prices ::
  "env \<Rightarrow> decimal \<Rightarrow> CurrencyEnum \<Rightarrow> date \<Rightarrow> world
     \<Rightarrow> (error + decimal \<times> decimal \<times> decimal) \<times> world" where
  "calculate_prices env price currency pdate w =
     (if currency = EUR then
        (case get_exchange_rate env EUR USD pdate w of
           (Inl e, w') \<Rightarrow> (Inl e, w')
         | (Inr (Some rate), w') \<Rightarrow>
             (case decimal_mul price rate of
                Inl e \<Rightarrow> (Inl e, w')
              | Inr usd \<Rightarrow> (Inr (price, usd, rate), w'))
         | (Inr None, w') \<Rightarrow> (Inr (price, Decimal_0, Decimal_1_0), w'))
      else
        (case get_exchange_rate env USD EUR pdate w of
           (Inl e, w') \<Rightarrow> (Inl e, w')
         | (Inr (Some rate), w') \<Rightarrow>
             (case decimal_mul price rate of
                Inl e \<Rightarrow> (Inl e, w')
              | Inr eur \<Rightarrow> (Inr (eur, price, rate), w'))
         | (Inr None, w') \<Rightarrow> (Inr (Decimal_0, price, Decimal_1_0), w')))"

section \<open>The table and the session\<close>

text \<open>
  Modelled from the spec: what the table makes of a row written to it. The three prices
  go through a column of precision 10 and scale 2 and the rate through one of precision
  15 and scale 6, as the fields of \<^verbatim>\<open>BeerEntry\<close> declare them (\<^verbatim>\<open>max_digits\<close>,
  \<^verbatim>\<open>decimal_places\<close>); a value that the engine rejects makes the whole row rejected.
\<close>

definition column_values :: "env \<Rightarrow> BeerEntry \<Rightarrow> BeerEntry option" where
  "column_values env e =
     (case to_column env 10 2 (original_price e) of
        None \<Rightarrow> None
      | Some p \<Rightarrow>
     (case to_column env 10 2 (eur_price e) of
        None \<Rightarrow> None
      | Some eur \<Rightarrow>
     (case to_column env 10 2 (usd_price e) of
        None \<Rightarrow> None
      | Some usd \<Rightarrow>
     (case to_column env 15 6 (exchange_rate e) of
        None \<Rightarrow> None
      | Some rate \<Rightarrow>
          Some (e\<lparr>original_price := p, eur_price := eur, usd_price := usd,
                  exchange_rate := rate\<rparr>)))))"

text \<open>
  Modelled from the spec: the three statements that a session sends to the table. An
  insert appends the row with the next identifier ("\<^verbatim>\<open>id\<close> auto-assigned"; the
  service always hands over a row whose \<^verbatim>\<open>id\<close> is \<^verbatim>\<open>None\<close>), a lookup is by primary
  key, a delete removes the row with the key.
\<close>

definition insert_row :: "BeerEntry \<Rightarrow> store \<Rightarrow> store" where
  "insert_row e s =
     \<lparr>rows = rows s @ [e\<lparr>id_pk := Some (next_id s)\<rparr>], next_id = next_id s + 1\<rparr>"

definition get_row :: "int \<Rightarrow> store \<Rightarrow> BeerEntry option" where
  "get_row i s = find (\<lambda>e. id_pk e = Some i) (rows s)"

definition delete_row :: "int \<Rightarrow> store \<Rightarrow> store" where
  "delete_row i s = s\<lparr>rows := filter (\<lambda>e. id_pk e \<noteq> Some i) (rows s)\<rparr>"

text \<open>
  The primary key: every row has an identifier, below the next one to assign, and no two
  rows share one.
\<close>

fun assigned_below :: "int \<Rightarrow> int option \<Rightarrow> bool" where
  "assigned_below n None = False"
| "assigned_below n (Some i) = (i < n)"

definition wf_store :: "store \<Rightarrow> bool" where
  "wf_store s =
     (distinct (map id_pk (rows s)) \<and>
      list_all (\<lambda>e. assigned_below (next_id s) (id_pk e)) (rows s))"

text \<open>
  Leaving \<^verbatim>\<open>with get_session() as session:\<close> closes the session; an exception of the
  close replaces the outcome of the block.
\<close>

definition session_exit :: "env \<Rightarrow> error + 'a \<Rightarrow> error + 'a" where
  "session_exit env r = (if Close \<in> faults env then Inl (SQLAlchemyError Close) else r)"

section \<open>BeerTrackerService (app/beer\_tracker.py)\<close>

text \<open>
  The row that \<^verbatim>\<open>create_beer_entry\<close> builds with \<^verbatim>\<open>BeerEntry(...)\<close>. \<^verbatim>\<open>id\<close> and
  \<^verbatim>\<open>created_at\<close> are not passed to the constructor: the first stays \<^verbatim>\<open>None\<close>, the
  \<^verbatim>\<open>default_factory\<close> of the second reads the clock. A table model is not validated
  when it is built, so the decimals are the ones handed over.
\<close>

definition beer_entry ::
  "env \<Rightarrow> BeerEntryCreate \<Rightarrow> decimal \<Rightarrow> decimal \<Rightarrow> decimal \<Rightarrow> BeerEntry" where
  "beer_entry env entry_data eur usd rate =
     \<lparr>beer_name = beer_name entry_data,
      original_price = original_price entry_data,
      original_currency = original_currency entry_data,
      purchase_date = purchase_date entry_data,
      id_pk = None,
      eur_price = eur,
      usd_price = usd,
      exchange_rate = rate,
      created_at = utcnow env\<rparr>"

text \<open>
  The \<^verbatim>\<open>with\<close> block of \<^verbatim>\<open>create_beer_entry\<close>: \<^verbatim>\<open>session.add\<close>, \<^verbatim>\<open>session.commit\<close>,
  \<^verbatim>\<open>session.refresh\<close>, \<^verbatim>\<open>return beer_entry\<close>. The commit writes the row through its
  columns; a commit that raises, by a fault or because the engine rejects a value, leaves
  the table as it was. The refresh reads the committed row back by its key, so the entry
  returned has the values of the columns.
\<close>

definition add_commit_refresh :: "env \<Rightarrow> BeerEntry \<Rightarrow> store \<Rightarrow> (error + BeerEntry) \<times> store" where
  "add_commit_refresh env b s =
     (if OpenSession \<in> faults env then (Inl (SQLAlchemyError OpenSession), s)
      else if Add \<in> faults env then (session_exit env (Inl (SQLAlchemyError Add)), s)
      else if Commit \<in> faults env then (session_exit env (Inl (SQLAlchemyError Commit)), s)
      else
        (case column_values env b of
           None \<Rightarrow> (session_exit env (Inl (SQLAlchemyError Commit)), s)
         | Some stored \<Rightarrow>
             let s' = insert_row stored s in
             if Refresh \<in> faults env then (session_exit env (Inl (SQLAlchemyError Refresh)), s')
             else (case get_row (next_id s) s' of
                     None \<Rightarrow> (session_exit env (Inl (SQLAlchemyError Refresh)), s')
                   | Some row \<Rightarrow> (session_exit env (Inr row), s'))))"

text \<open>
  \<^verbatim>\<open>except Exception\<close> turns every exception of the \<^verbatim>\<open>try\<close> into a notification and
  the result \<^verbatim>\<open>None\<close>.
\<close>

definition create_beer_entry ::
  "env \<Rightarrow> BeerEntryCreate \<Rightarrow> world \<Rightarrow> (error + BeerEntry option) \<times> world" where
  "create_beer_entry env entry_data w =
     (case calculate_prices env (original_price entry_data) (original_currency entry_data)
             (purchase_date entry_data) w of
        (Inl e, w') \<Rightarrow>
          (Inr None, w'\<lparr>notified := notified w' @ [(''Error creating beer entry: '', e)]\<rparr>)
      | (Inr (eur, usd, rate), w') \<Rightarrow>
          (case add_commit_refresh env (beer_entry env entry_data eur usd rate) (db w') of
             (Inl e, s') \<Rightarrow>
               (Inr None,
                w'\<lparr>db := s',
                   notified := notified w' @ [(''Error creating beer entry: '', e)]\<rparr>)
           | (Inr row, s') \<Rightarrow> (Inr (Some row), w'\<lparr>db := s'\<rparr>)))"

text \<open>\<^verbatim>\<open>get_all_beer_entries\<close> has no \<^verbatim>\<open>try\<close>: an exception of the session propagates.\<close>

definition get_all_beer_entries :: "env \<Rightarrow> world \<Rightarrow> (error + BeerEntry list) \<times> world" where
  "get_all_beer_entries env w =
     (if OpenSession \<in> faults env then (Inl (SQLAlchemyError OpenSession), w)
      else if Exec \<in> faults env then (session_exit env (Inl (SQLAlchemyError Exec)), w)
      else (session_exit env (Inr (rows (db w))), w))"

text \<open>
  The \<^verbatim>\<open>with\<close> block of \<^verbatim>\<open>delete_beer_entry\<close> and the \<^verbatim>\<open>return False\<close> after it.
\<close>

definition get_delete_commit :: "env \<Rightarrow> int \<Rightarrow> store \<Rightarrow> (error + bool) \<times> store" where
  "get_delete_commit env entry_id s =
     (if OpenSession \<in> faults env then (Inl (SQLAlchemyError OpenSession), s)
      else if Get \<in> faults env then (session_exit env (Inl (SQLAlchemyError Get)), s)
      else (case get_row entry_id s of
              Some entry \<Rightarrow>
                if Delete \<in> faults env then (session_exit env (Inl (SQLAlchemyError Delete)), s)
                else if Commit \<in> faults env
                  then (session_exit env (Inl (SQLAlchemyError Commit)), s)
                else (session_exit env (Inr True), delete_row entry_id s)
            | None \<Rightarrow> (session_exit env (Inr False), s)))"

definition delete_beer_entry :: "env \<Rightarrow> int \<Rightarrow> world \<Rightarrow> (error + bool) \<times> world" where
  "delete_beer_entry env entry_id w =
     (case get_delete_commit env entry_id (db w) of
        (Inl e, s') \<Rightarrow>
          (Inr False, w\<lparr>db := s', notified := notified w @ [(''Error deleting entry: '', e)]\<rparr>)
      | (Inr b, s') \<Rightarrow> (Inr b, w\<lparr>db := s'\<rparr>))"


section \<open>Example inputs\<close>

text \<open>
  An engine for the examples, in the manner of a \<^verbatim>\<open>NUMERIC(p, s)\<close> column: a finite
  decimal is brought to \<open>s\<close> fractional digits, rounding half away from zero, and
  rejected when that takes more than \<open>p\<close> digits; a NaN is stored as the NaN, an
  infinity is rejected.
\<close>

definition round_half_up :: "nat \<Rightarrow> nat \<Rightarrow> nat" where
  "round_half_up c k =
     (let q = c div 10 ^ k; r = c mod 10 ^ k in if 2 * r \<ge> 10 ^ k then q + 1 else q)"

fun numeric_column :: "nat \<Rightarrow> nat \<Rightarrow> decimal \<Rightarrow> decimal option" where
  "numeric_column p s (DecimalTuple sg c e) =
     (let c' = (if e \<ge> - int s then c * 10 ^ nat (e + int s)
                else round_half_up c (nat (- int s - e)))
      in if c' < 10 ^ p then Some (DecimalTuple sg c' (- int s)) else None)"
| "numeric_column p s (NaN sg payload) = Some (NaN False 0)"
| "numeric_column p s (sNaN sg payload) = Some (NaN False 0)"
| "numeric_column p s (Infinity sg) = None"

text \<open>
  The inputs of the tests and of the spec's scenarios: the date 2023-01-01, the empty
  table, a provider that answers one URL, and the entry "Test Beer" at 10.50 EUR.
\<close>

definition date_2023_01_01 :: date where
  "date_2023_01_01 = \<lparr>year = 2023, month = 1, day = 1\<rparr>"

definition empty_world :: world where
  "empty_world = \<lparr>db = \<lparr>rows = [], next_id = 1\<rparr>, notified = [], requested = []\<rparr>"

definition provider_env :: "string \<Rightarrow> http_result \<Rightarrow> db_op set \<Rightarrow> env" where
  "provider_env url answer fs =
     \<lparr>http_get = (\<lambda>u. if u = url then answer else TransportError),
      Decimal_of_str = (\<lambda>s. None),
      utcnow = 1700000000,
      faults = fs,
      to_column = numeric_column\<rparr>"

definition eur_url :: string where
  "eur_url = ''https://api.exchangerate-api.com/v4/historical/EUR/2023-01-01''"

definition usd_url :: string where
  "usd_url = ''https://api.exchangerate-api.com/v4/historical/USD/2023-01-01''"

definition rates_response :: "string \<Rightarrow> json \<Rightarrow> http_result" where
  \<comment> \<open>status 200 with the body \<^verbatim>\<open>{"rates": {code: rate}}\<close>\<close>
  "rates_response code rate = Response 200 (Some (JObject [(''rates'', JObject [(code, rate)])]))"

definition test_beer :: BeerEntryCreate where
  "test_beer =
     \<lparr>beer_name = ''Test Beer'',
      original_price = DecimalTuple False 1050 (- 2),
      original_currency = EUR,
      purchase_date = date_2023_01_01\<rparr>"

text \<open>
  The table of the listing scenario: "Beer One" (EUR, 5.00, rate 1.1) and "Beer Two"
  (USD, 8.00, rate 0.9), inserted in this order.
\<close>

definition beer_one :: BeerEntry where
  "beer_one =
     \<lparr>beer_name = ''Beer One'',
      original_price = DecimalTuple False 500 (- 2),
      original_currency = EUR,
      purchase_date = date_2023_01_01,
      id_pk = Some 1,
      eur_price = DecimalTuple False 500 (- 2),
      usd_price = DecimalTuple False 550 (- 2),
      exchange_rate = DecimalTuple False 1100000 (- 6),
      created_at = 1672531200\<rparr>"

definition beer_two :: BeerEntry where
  "beer_two =
     \<lparr>beer_name = ''Beer Two'',
      original_price = DecimalTuple False 800 (- 2),
      original_currency = USD,
      purchase_date = \<lparr>year = 2023, month = 1, day = 2\<rparr>,
      id_pk = Some 2,
      eur_price = DecimalTuple False 720 (- 2),
      usd_price = DecimalTuple False 800 (- 2),
      exchange_rate = DecimalTuple False 900000 (- 6),
      created_at = 1672617600\<rparr>"

definition two_beers :: world where
  "two_beers = \<lparr>db = \<lparr>rows = [beer_one, beer_two], next_id = 3\<rparr>, notified = [], requested = []\<rparr>"

text \<open>
  The row that the table holds of "Test Beer" with the identifier \<open>i\<close>, given the two
  prices and the rate as stored.
\<close>

definition test_beer_row :: "int \<Rightarrow> decimal \<Rightarrow> decimal \<Rightarrow> decimal \<Rightarrow> BeerEntry" where
  "test_beer_row i eur usd rate =
     \<lparr>beer_name = ''Test Beer'',
      original_price = DecimalTuple False 1050 (- 2),
      original_currency = EUR,
      purchase_date = date_2023_01_01,
      id_pk = Some i,
      eur_price = eur,
      usd_price = usd,
      exchange_rate = rate,
      created_at = 1700000000\<rparr>"

section \<open>Unfolding the definitions\<close>

lemmas rate_defs =
  get_exchange_rate_def read_rate_def raise_for_status_def response_json_def
  BASE_URL_def isoformat_def digit_def Let_def

lemmas decimal_defs =
  decimal_mul.simps decimal_fix_def ndigits.simps round_half_even_def
  prec_def Emax_def Emin_def Etiny_def Etop_def

lemmas service_defs =
  create_beer_entry_def calculate_prices_def beer_entry_def column_values_def
  add_commit_refresh_def session_exit_def insert_row_def get_row_def delete_row_def
  get_all_beer_entries_def delete_beer_entry_def get_delete_commit_def

lemmas example_defs =
  provider_env_def rates_response_def empty_world_def date_2023_01_01_def eur_url_def
  usd_url_def test_beer_def beer_one_def beer_two_def two_beers_def test_beer_row_def
  round_half_up_def

section \<open>The table: primary key and statements\<close>

lemma find_snoc:
  "find P (xs @ [x]) = (case find P xs of Some y \<Rightarrow> Some y | None \<Rightarrow> if P x then Some x else None)"
  by (induction xs) auto

lemma wf_store_id_below:
  assumes "wf_store s" and "r \<in> set (rows s)"
  shows "\<exists>i. id_pk r = Some i \<and> i < next_id s"
proof -
  have "assigned_below (next_id s) (id_pk r)"
    using assms by (simp add: wf_store_def list_all_iff)
  then show ?thesis
    by (cases "id_pk r") simp_all
qed

lemma get_row_fresh:
  assumes "wf_store s"
  shows "get_row (next_id s) s = None"
proof -
  have "\<And>r. r \<in> set (rows s) \<Longrightarrow> id_pk r \<noteq> Some (next_id s)"
    using wf_store_id_below [OF assms] by fastforce
  then show ?thesis
    by (simp add: get_row_def find_None_iff)
qed

lemma get_row_insert_row:
  assumes "wf_store s"
  shows "get_row (next_id s) (insert_row e s) = Some (e\<lparr>id_pk := Some (next_id s)\<rparr>)"
  using get_row_fresh [OF assms] by (simp add: get_row_def insert_row_def find_snoc)

lemma wf_store_insert_row:
  assumes "wf_store s"
  shows "wf_store (insert_row e s)"
proof -
  have fresh: "Some (next_id s) \<notin> id_pk ` set (rows s)"
    using wf_store_id_below [OF assms] by fastforce
  have below: "list_all (\<lambda>r. assigned_below (next_id s + 1) (id_pk r)) (rows s)"
    using wf_store_id_below [OF assms] by (fastforce simp: list_all_iff)
  show ?thesis
    using assms fresh below by (simp add: wf_store_def insert_row_def)
qed

lemma wf_store_delete_row:
  assumes "wf_store s"
  shows "wf_store (delete_row i s)"
  using assms by (auto simp: wf_store_def delete_row_def list_all_iff distinct_map_filter)

lemma get_row_SomeD:
  assumes "get_row i s = Some e"
  shows "e \<in> set (rows s) \<and> id_pk e = Some i"
  using assms unfolding get_row_def by (auto simp: find_Some_iff)

lemma get_row_None_iff: "get_row i s = None \<longleftrightarrow> Some i \<notin> id_pk ` set (rows s)"
  by (force simp: get_row_def find_None_iff)

lemma get_row_unique:
  assumes "wf_store s" and "e \<in> set (rows s)" and "id_pk e = Some i"
  shows "get_row i s = Some e"
proof -
  obtain r where r: "get_row i s = Some r"
    using assms(2,3) get_row_None_iff [of i s] by force
  then have "r \<in> set (rows s)" and "id_pk r = id_pk e"
    using get_row_SomeD [OF r] assms(3) by simp_all
  moreover have "inj_on id_pk (set (rows s))"
    using assms(1) by (simp add: wf_store_def distinct_map)
  ultimately have "r = e"
    using assms(2) by (auto dest: inj_onD)
  with r show ?thesis by simp
qed

lemma filter_key_remove1:
  assumes "distinct (map f xs)" and "x \<in> set xs"
  shows "filter (\<lambda>y. f y \<noteq> f x) xs = remove1 x xs"
  using assms
proof (induction xs)
  case Nil
  then show ?case by simp
next
  case (Cons a xs)
  show ?case
  proof (cases "a = x")
    case True
    then have "f x \<notin> f ` set xs"
      using Cons.prems(1) by simp
    then have "\<And>y. y \<in> set xs \<Longrightarrow> f y \<noteq> f x"
      by (metis imageI)
    then have "filter (\<lambda>y. f y \<noteq> f x) xs = xs"
      by (simp add: filter_id_conv)
    with True show ?thesis by simp
  next
    case False
    then have "x \<in> set xs" using Cons.prems(2) by simp
    moreover have "f a \<noteq> f x"
      using Cons.prems(1) \<open>x \<in> set xs\<close> by force
    ultimately show ?thesis
      using Cons False by auto
  qed
qed

lemma rows_delete_row:
  assumes "wf_store s" and "e \<in> set (rows s)" and "id_pk e = Some i"
  shows "rows (delete_row i s) = remove1 e (rows s)"
proof -
  have "distinct (map id_pk (rows s))"
    using assms(1) by (simp add: wf_store_def)
  from filter_key_remove1 [OF this assms(2)] show ?thesis
    by (simp add: delete_row_def assms(3))
qed

lemma wf_store_empty_world: "wf_store (db empty_world)"
  by (simp add: wf_store_def empty_world_def)

lemma wf_store_two_beers: "wf_store (db two_beers)"
  by (simp add: wf_store_def two_beers_def beer_one_def beer_two_def)

lemma wf_store_distinct_rows:
  assumes "wf_store s"
  shows "distinct (rows s)"
  using assms by (simp add: wf_store_def distinct_map)

section \<open>Products and column values of the examples\<close>

text \<open>
  The products of the examples are exact. The product of 10.50 and a rate of 30 digits
  is rounded to 28 digits, and zero times an infinity raises.
\<close>

lemma mul_1050_11:
  "decimal_mul (DecimalTuple False 1050 (- 2)) (DecimalTuple False 11 (- 1))
   = Inr (DecimalTuple False 11550 (- 3))"
  by (simp add: decimal_defs)

lemma mul_800_9:
  "decimal_mul (DecimalTuple False 800 (- 2)) (DecimalTuple False 9 (- 1))
   = Inr (DecimalTuple False 7200 (- 3))"
  by (simp add: decimal_defs)


lemma mul_1050_10857:
  "decimal_mul (DecimalTuple False 1050 (- 2)) (DecimalTuple False 10857 (- 4))
   = Inr (DecimalTuple False 11399850 (- 6))"
  by (simp add: decimal_defs)

lemma mul_1050_Infinity:
  "decimal_mul (DecimalTuple False 1050 (- 2)) (Infinity False) = Inr (Infinity False)"
  by (simp add: decimal_defs)

lemma mul_rounds:
  "decimal_mul (DecimalTuple False 1050 (- 2))
     (DecimalTuple False 123456789012345678901234567890 0)
   = Inr (DecimalTuple False 1296296284629629628462962963 3)"
  by (simp add: decimal_defs)

lemma mul_0_Infinity:
  "decimal_mul (DecimalTuple False 0 0) (Infinity False) = Inl InvalidOperation"
  by (simp add: decimal_defs)

text \<open>
  What the example engine stores: 11.550 as 11.55, 10.504200 as 10.50, 11.399850 as
  11.40, and the rates 1.1, 1.0004 and 1.0857 with six fractional digits.
\<close>

lemma price_column_1050: "numeric_column 10 2 (DecimalTuple False 1050 (- 2)) = Some (DecimalTuple False 1050 (- 2))"
  by simp

lemma price_column_11550: "numeric_column 10 2 (DecimalTuple False 11550 (- 3)) = Some (DecimalTuple False 1155 (- 2))"
  by (simp add: round_half_up_def)


lemma price_column_11399850: "numeric_column 10 2 (DecimalTuple False 11399850 (- 6)) = Some (DecimalTuple False 1140 (- 2))"
  by (simp add: round_half_up_def)

lemma rate_column_11: "numeric_column 15 6 (DecimalTuple False 11 (- 1)) = Some (DecimalTuple False 1100000 (- 6))"
  by simp


lemma rate_column_10857: "numeric_column 15 6 (DecimalTuple False 10857 (- 4)) = Some (DecimalTuple False 1085700 (- 6))"
  by simp

section \<open>The exchange rate\<close>

text \<open>
  C5. For either currency \<open>c\<close> and every date, \<^verbatim>\<open>get_exchange_rate(c, c, d)\<close> returns
  exactly \<^verbatim>\<open>Decimal("1.0")\<close> and requests nothing from the rate provider: the world,
  with its list of requested URLs, is returned as it was.
\<close>

theorem same_currency_rate_is_one:
  "get_exchange_rate env c c d w = (Inr (Some Decimal_1_0), w)
   \<and> requested (snd (get_exchange_rate env c c d w)) = requested w
   \<and> Decimal_1_0 = DecimalTuple False 10 (- 1)"
  by (simp add: get_exchange_rate_def Decimal_1_0_def)

text \<open>
  C2 (as amended). When the lookup of the rate returns a rate \<open>r\<close> and the multiplication
  \<open>p * r\<close> of \<^verbatim>\<open>Decimal\<close> returns a value \<open>v\<close> (the product, rounded to 28 significant
  digits), \<^verbatim>\<open>calculate_prices(p, EUR, d)\<close> returns \<open>(p, v, r)\<close> and
  \<^verbatim>\<open>calculate_prices(p, USD, d)\<close> returns \<open>(v, p, r)\<close>, for every price and date.
\<close>

theorem calculate_prices_product:
  "(get_exchange_rate env EUR USD d w = (Inr (Some r), w') \<and> decimal_mul p r = Inr v
      \<longrightarrow> calculate_prices env p EUR d w = (Inr (p, v, r), w'))
   \<and> (get_exchange_rate env USD EUR d w = (Inr (Some r), w') \<and> decimal_mul p r = Inr v
      \<longrightarrow> calculate_prices env p USD d w = (Inr (v, p, r), w'))"
  by (simp add: calculate_prices_def)

text \<open>
  At 10.50 EUR with the rate 1.1 the prices are 10.50 and 11.550; at 8.00 USD with the
  rate 0.9 they are 7.200 and 8.00.
\<close>

theorem calculate_prices_product_witness:
  "get_exchange_rate
     (provider_env eur_url (rates_response ''USD'' (JNumber (DecimalTuple False 11 (- 1)))) {})
     EUR USD date_2023_01_01 empty_world
   = (Inr (Some (DecimalTuple False 11 (- 1))), empty_world\<lparr>requested := [eur_url]\<rparr>)
   \<and> decimal_mul (DecimalTuple False 1050 (- 2)) (DecimalTuple False 11 (- 1))
     = Inr (DecimalTuple False 11550 (- 3))
   \<and> calculate_prices
     (provider_env eur_url (rates_response ''USD'' (JNumber (DecimalTuple False 11 (- 1)))) {})
     (DecimalTuple False 1050 (- 2)) EUR date_2023_01_01 empty_world
   = (Inr (DecimalTuple False 1050 (- 2), DecimalTuple False 11550 (- 3), DecimalTuple False 11 (- 1)),
      empty_world\<lparr>requested := [eur_url]\<rparr>)
   \<and> get_exchange_rate
     (provider_env usd_url (rates_response ''EUR'' (JNumber (DecimalTuple False 9 (- 1)))) {})
     USD EUR date_2023_01_01 empty_world
   = (Inr (Some (DecimalTuple False 9 (- 1))), empty_world\<lparr>requested := [usd_url]\<rparr>)
   \<and> decimal_mul (DecimalTuple False 800 (- 2)) (DecimalTuple False 9 (- 1))
     = Inr (DecimalTuple False 7200 (- 3))
   \<and> calculate_prices
     (provider_env usd_url (rates_response ''EUR'' (JNumber (DecimalTuple False 9 (- 1)))) {})
     (DecimalTuple False 800 (- 2)) USD date_2023_01_01 empty_world
   = (Inr (DecimalTuple False 7200 (- 3), DecimalTuple False 800 (- 2), DecimalTuple False 9 (- 1)),
      empty_world\<lparr>requested := [usd_url]\<rparr>)"
proof -
  let ?env1 = "provider_env eur_url (rates_response ''USD'' (JNumber (DecimalTuple False 11 (- 1)))) {}"
  let ?env2 = "provider_env usd_url (rates_response ''EUR'' (JNumber (DecimalTuple False 9 (- 1)))) {}"
  have eur: "get_exchange_rate ?env1 EUR USD date_2023_01_01 empty_world
      = (Inr (Some (DecimalTuple False 11 (- 1))), empty_world\<lparr>requested := [eur_url]\<rparr>)"
    by (simp add: rate_defs example_defs)
  have usd: "get_exchange_rate ?env2 USD EUR date_2023_01_01 empty_world
      = (Inr (Some (DecimalTuple False 9 (- 1))), empty_world\<lparr>requested := [usd_url]\<rparr>)"
    by (simp add: rate_defs example_defs)
  from calculate_prices_product
    [of ?env1 date_2023_01_01 empty_world "DecimalTuple False 11 (- 1)" _
        "DecimalTuple False 1050 (- 2)" "DecimalTuple False 11550 (- 3)"]
    calculate_prices_product
    [of ?env2 date_2023_01_01 empty_world "DecimalTuple False 9 (- 1)" _
        "DecimalTuple False 800 (- 2)" "DecimalTuple False 7200 (- 3)"]
    eur usd mul_1050_11 mul_800_9
  show ?thesis by simp
qed

text \<open>
  When the multiplication raises, \<^verbatim>\<open>calculate_prices\<close> raises what it raises.
\<close>

lemma calculate_prices_product_raises:
  "(get_exchange_rate env EUR USD d w = (Inr (Some r), w') \<and> decimal_mul p r = Inl e
      \<longrightarrow> calculate_prices env p EUR d w = (Inl e, w'))
   \<and> (get_exchange_rate env USD EUR d w = (Inr (Some r), w') \<and> decimal_mul p r = Inl e
      \<longrightarrow> calculate_prices env p USD d w = (Inl e, w'))"
  by (simp add: calculate_prices_def)

text \<open>
  C2 as stated, for every price and every available rate, fails at the price
  \<^verbatim>\<open>Decimal("0")\<close> when the provider gives the rate \<^verbatim>\<open>1e400\<close>: the lookup returns
  \<^verbatim>\<open>Decimal("Infinity")\<close>, and \<^verbatim>\<open>calculate_prices\<close> returns nothing, the product raising
  \<^verbatim>\<open>InvalidOperation\<close>.
\<close>

theorem zero_times_infinity_raises:
  "get_exchange_rate
     (provider_env eur_url (rates_response ''USD'' (JNumber (Infinity False))) {})
     EUR USD date_2023_01_01 empty_world
   = (Inr (Some (Infinity False)), empty_world\<lparr>requested := [eur_url]\<rparr>)
   \<and> calculate_prices
     (provider_env eur_url (rates_response ''USD'' (JNumber (Infinity False))) {})
     (DecimalTuple False 0 0) EUR date_2023_01_01 empty_world
   = (Inl InvalidOperation, empty_world\<lparr>requested := [eur_url]\<rparr>)"
  by (simp add: calculate_prices_def rate_defs example_defs mul_0_Infinity)

text \<open>
  C3. When the lookup of the rate fails (returns \<^verbatim>\<open>None\<close>), \<^verbatim>\<open>calculate_prices\<close> keeps
  the price of the original currency, sets the other price to \<^verbatim>\<open>Decimal("0")\<close> and
  records the rate \<^verbatim>\<open>Decimal("1.0")\<close>, for every price and date.
\<close>

theorem calculate_prices_rate_unavailable:
  "(get_exchange_rate env EUR USD d w = (Inr None, w')
      \<longrightarrow> calculate_prices env p EUR d w = (Inr (p, Decimal_0, Decimal_1_0), w'))
   \<and> (get_exchange_rate env USD EUR d w = (Inr None, w')
      \<longrightarrow> calculate_prices env p USD d w = (Inr (Decimal_0, p, Decimal_1_0), w'))"
  by (simp add: calculate_prices_def)

text \<open>
  A transport failure for a price in EUR, a status 503 for a price in USD.
\<close>

theorem calculate_prices_rate_unavailable_witness:
  "get_exchange_rate (provider_env eur_url TransportError {}) EUR USD date_2023_01_01 empty_world
   = (Inr None, empty_world\<lparr>requested := [eur_url]\<rparr>)
   \<and> calculate_prices (provider_env eur_url TransportError {})
       (DecimalTuple False 1050 (- 2)) EUR date_2023_01_01 empty_world
   = (Inr (DecimalTuple False 1050 (- 2), DecimalTuple False 0 0, DecimalTuple False 10 (- 1)),
      empty_world\<lparr>requested := [eur_url]\<rparr>)
   \<and> get_exchange_rate (provider_env usd_url (Response 503 None) {}) USD EUR date_2023_01_01 empty_world
   = (Inr None, empty_world\<lparr>requested := [usd_url]\<rparr>)
   \<and> calculate_prices (provider_env usd_url (Response 503 None) {})
       (DecimalTuple False 800 (- 2)) USD date_2023_01_01 empty_world
   = (Inr (DecimalTuple False 0 0, DecimalTuple False 800 (- 2), DecimalTuple False 10 (- 1)),
      empty_world\<lparr>requested := [usd_url]\<rparr>)"
proof -
  let ?env1 = "provider_env eur_url TransportError {}"
  let ?env2 = "provider_env usd_url (Response 503 None) {}"
  have eur: "get_exchange_rate ?env1 EUR USD date_2023_01_01 empty_world
      = (Inr None, empty_world\<lparr>requested := [eur_url]\<rparr>)"
    by (simp add: rate_defs example_defs)
  have usd: "get_exchange_rate ?env2 USD EUR date_2023_01_01 empty_world
      = (Inr None, empty_world\<lparr>requested := [usd_url]\<rparr>)"
    by (simp add: rate_defs example_defs)
  from calculate_prices_rate_unavailable
    [of ?env1 date_2023_01_01 empty_world _ "DecimalTuple False 1050 (- 2)"]
    calculate_prices_rate_unavailable
    [of ?env2 date_2023_01_01 empty_world _ "DecimalTuple False 800 (- 2)"]
    eur usd
  show ?thesis by (simp add: Decimal_0_def Decimal_1_0_def)
qed

text \<open>
  The failures that \<^verbatim>\<open>get_exchange_rate\<close> turns into \<^verbatim>\<open>None\<close>: a transport error, a
  status outside 200..299, a body that is not JSON, an object without \<^verbatim>\<open>"rates"\<close>, and a
  rates object without the target currency (or with \<^verbatim>\<open>null\<close> for it).
\<close>

lemma get_exchange_rate_handled:
  assumes "from_currency \<noteq> to_currency"
    and "answer = http_get env (BASE_URL @ ''/'' @ currency_value from_currency @ ''/'' @ isoformat d)"
    and "answer = TransportError
         \<or> (\<exists>status body. answer = Response status body \<and> \<not> (200 \<le> status \<and> status < 300))
         \<or> (\<exists>status. answer = Response status None)
         \<or> (\<exists>status kvs. answer = Response status (Some (JObject kvs)) \<and> map_of kvs ''rates'' = None)
         \<or> (\<exists>status kvs rs. answer = Response status (Some (JObject kvs))
               \<and> map_of kvs ''rates'' = Some (JObject rs)
               \<and> map_of rs (currency_value to_currency) \<in> {None, Some JNull})"
  shows "fst (get_exchange_rate env from_currency to_currency d w) = Inr None"
  using assms
  by (auto simp: get_exchange_rate_def read_rate_def raise_for_status_def response_json_def Let_def
      split: http_result.splits sum.splits option.splits)

text \<open>
  C4. The claim that every malformed response gives \<^verbatim>\<open>None\<close> and that neither function
  raises fails on the body \<^verbatim>\<open>{"rates": null}\<close> with status 200: \<^verbatim>\<open>data.get("rates", {})\<close>
  is \<^verbatim>\<open>None\<close>, \<^verbatim>\<open>rates.get\<close> raises \<^verbatim>\<open>AttributeError\<close>, which the \<^verbatim>\<open>except\<close> clause
  does not list, and \<^verbatim>\<open>calculate_prices\<close> lets it through.
\<close>

theorem null_rates_raise_AttributeError:
  "get_exchange_rate
     (provider_env eur_url (Response 200 (Some (JObject [(''rates'', JNull)]))) {})
     EUR USD date_2023_01_01 empty_world
   = (Inl AttributeError, empty_world\<lparr>requested := [eur_url]\<rparr>)
   \<and> calculate_prices
     (provider_env eur_url (Response 200 (Some (JObject [(''rates'', JNull)]))) {})
     (DecimalTuple False 1050 (- 2)) EUR date_2023_01_01 empty_world
   = (Inl AttributeError, empty_world\<lparr>requested := [eur_url]\<rparr>)"
  by (simp add: calculate_prices_def rate_defs example_defs)

section \<open>Creating an entry\<close>

text \<open>
  A lookup of the rate between two different currencies adds its URL to the requested
  ones and changes nothing else; \<^verbatim>\<open>calculate_prices\<close> makes exactly one such lookup.
\<close>

lemma get_exchange_rate_world:
  "snd (get_exchange_rate env from_currency to_currency d w) =
     (if from_currency = to_currency then w
      else w\<lparr>requested := requested w
             @ [BASE_URL @ ''/'' @ currency_value from_currency @ ''/'' @ isoformat d]\<rparr>)"
  by (simp add: get_exchange_rate_def Let_def split: sum.splits)

lemma calculate_prices_world:
  "snd (calculate_prices env p c d w) =
     w\<lparr>requested := requested w @ [BASE_URL @ ''/'' @ currency_value c @ ''/'' @ isoformat d]\<rparr>"
proof (cases c)
  case EUR
  have "snd (calculate_prices env p EUR d w) = snd (get_exchange_rate env EUR USD d w)"
    by (simp add: calculate_prices_def split: prod.splits sum.splits option.splits)
  with EUR show ?thesis by (simp add: get_exchange_rate_world)
next
  case USD
  have "snd (calculate_prices env p USD d w) = snd (get_exchange_rate env USD EUR d w)"
    by (simp add: calculate_prices_def split: prod.splits sum.splits option.splits)
  with USD show ?thesis by (simp add: get_exchange_rate_world)
qed

text \<open>
  A row that the table accepts differs from the row written in its four decimals only,
  each the value of its column.
\<close>

lemma column_values_Some:
  assumes "column_values env b = Some stored"
  shows "to_column env 10 2 (original_price b) = Some (original_price stored)
    \<and> to_column env 10 2 (eur_price b) = Some (eur_price stored)
    \<and> to_column env 10 2 (usd_price b) = Some (usd_price stored)
    \<and> to_column env 15 6 (exchange_rate b) = Some (exchange_rate stored)
    \<and> beer_name stored = beer_name b
    \<and> original_currency stored = original_currency b
    \<and> purchase_date stored = purchase_date b
    \<and> id_pk stored = id_pk b
    \<and> created_at stored = created_at b"
  using assms by (auto simp: column_values_def split: option.splits)

text \<open>
  The session block on a table with a primary key: when it returns, the row returned is
  the stored row with the next identifier, and it has been appended. When the session
  cannot be opened, or the add or the commit raises, the table is as before.
\<close>

lemma add_commit_refresh_Inr:
  assumes "wf_store s" and "add_commit_refresh env b s = (Inr row, s')"
  shows "\<exists>stored. column_values env b = Some stored
                \<and> row = stored\<lparr>id_pk := Some (next_id s)\<rparr> \<and> s' = insert_row stored s"
proof (cases "column_values env b")
  case None
  with assms(2) show ?thesis
    by (simp add: add_commit_refresh_def session_exit_def split: if_splits)
next
  case (Some stored)
  with assms(2) get_row_insert_row [OF assms(1), of stored] show ?thesis
    by (simp add: add_commit_refresh_def session_exit_def Let_def split: if_splits)
qed

lemma add_commit_refresh_not_committed:
  assumes "OpenSession \<in> faults env \<or> Add \<in> faults env \<or> Commit \<in> faults env
           \<or> column_values env b = None"
  shows "\<exists>e. add_commit_refresh env b s = (Inl e, s)"
  using assms by (auto simp: add_commit_refresh_def session_exit_def)


text \<open>
  What a successful \<^verbatim>\<open>create_beer_entry\<close> returns and stores.
\<close>

lemma create_beer_entry_Some:
  assumes "wf_store (db w)" and "create_beer_entry env entry_data w = (Inr (Some e), w')"
  shows "\<exists>eur usd rate stored.
     fst (calculate_prices env (original_price entry_data) (original_currency entry_data)
            (purchase_date entry_data) w) = Inr (eur, usd, rate)
     \<and> column_values env (beer_entry env entry_data eur usd rate) = Some stored
     \<and> e = stored\<lparr>id_pk := Some (next_id (db w))\<rparr>
     \<and> rows (db w') = rows (db w) @ [e]
     \<and> next_id (db w') = next_id (db w) + 1"
proof -
  let ?calc = "calculate_prices env (original_price entry_data) (original_currency entry_data)
                 (purchase_date entry_data) w"
  obtain res w1 where calc: "?calc = (res, w1)"
    by (cases ?calc)
  have w1: "db w1 = db w"
    using calculate_prices_world [of env "original_price entry_data" "original_currency entry_data"
        "purchase_date entry_data" w] calc by simp
  obtain eur usd rate where res: "res = Inr (eur, usd, rate)"
    using assms(2) calc by (cases res) (auto simp: create_beer_entry_def)
  let ?b = "beer_entry env entry_data eur usd rate"
  obtain r s' where acr: "add_commit_refresh env ?b (db w) = (r, s')"
    by (cases "add_commit_refresh env ?b (db w)")
  have "r = Inr e" and w': "w' = w1\<lparr>db := s'\<rparr>"
    using assms(2) calc res acr w1 by (cases r; simp add: create_beer_entry_def)+
  with add_commit_refresh_Inr [OF assms(1), of env ?b e s'] acr
  obtain stored where "column_values env ?b = Some stored"
    and "e = stored\<lparr>id_pk := Some (next_id (db w))\<rparr>" and "s' = insert_row stored (db w)"
    by auto
  then show ?thesis
    using calc res w' by (auto simp: insert_row_def)
qed

lemma created_entry_fields:
  assumes "wf_store (db w)" and "create_beer_entry env entry_data w = (Inr (Some e), w')"
  shows "\<exists>eur usd rate.
     fst (calculate_prices env (original_price entry_data) (original_currency entry_data)
            (purchase_date entry_data) w) = Inr (eur, usd, rate)
     \<and> to_column env 10 2 (original_price entry_data) = Some (original_price e)
     \<and> to_column env 10 2 eur = Some (eur_price e)
     \<and> to_column env 10 2 usd = Some (usd_price e)
     \<and> to_column env 15 6 rate = Some (exchange_rate e)
     \<and> beer_name e = beer_name entry_data
     \<and> original_currency e = original_currency entry_data
     \<and> purchase_date e = purchase_date entry_data
     \<and> id_pk e = Some (next_id (db w))
     \<and> created_at e = utcnow env
     \<and> rows (db w') = rows (db w) @ [e]"
proof -
  from create_beer_entry_Some [OF assms] obtain eur usd rate stored where
    calc: "fst (calculate_prices env (original_price entry_data) (original_currency entry_data)
            (purchase_date entry_data) w) = Inr (eur, usd, rate)"
    and stored: "column_values env (beer_entry env entry_data eur usd rate) = Some stored"
    and e: "e = stored\<lparr>id_pk := Some (next_id (db w))\<rparr>"
    and rows: "rows (db w') = rows (db w) @ [e]"
    by blast
  from column_values_Some [OF stored] have
    "to_column env 10 2 (original_price entry_data) = Some (original_price e)"
    "to_column env 10 2 eur = Some (eur_price e)"
    "to_column env 10 2 usd = Some (usd_price e)"
    "to_column env 15 6 rate = Some (exchange_rate e)"
    "beer_name e = beer_name entry_data"
    "original_currency e = original_currency entry_data"
    "purchase_date e = purchase_date entry_data"
    "created_at e = utcnow env"
    by (simp_all add: e beer_entry_def)
  moreover have "id_pk e = Some (next_id (db w))"
    by (simp add: e)
  ultimately show ?thesis
    using calc rows by blast
qed

text \<open>
  "Test Beer" created on the empty table and on the table of two beers.
\<close>

lemma create_test_beer:
  assumes "decimal_mul (DecimalTuple False 1050 (- 2)) rate = Inr usd"
    and "numeric_column 10 2 usd = Some usd'"
    and "numeric_column 15 6 rate = Some rate'"
  shows "create_beer_entry (provider_env eur_url (rates_response ''USD'' (JNumber rate)) {})
     test_beer empty_world
   = (Inr (Some (test_beer_row 1 (DecimalTuple False 1050 (- 2)) usd' rate')),
      \<lparr>db = \<lparr>rows = [test_beer_row 1 (DecimalTuple False 1050 (- 2)) usd' rate'], next_id = 2\<rparr>,
       notified = [], requested = [eur_url]\<rparr>)"
  using assms by (simp add: service_defs rate_defs example_defs)

lemma create_test_beer_two_beers:
  "create_beer_entry
     (provider_env eur_url (rates_response ''USD'' (JNumber (DecimalTuple False 11 (- 1)))) {})
     test_beer two_beers
   = (Inr (Some (test_beer_row 3 (DecimalTuple False 1050 (- 2)) (DecimalTuple False 1155 (- 2))
                   (DecimalTuple False 1100000 (- 6)))),
      \<lparr>db = \<lparr>rows = [beer_one, beer_two,
                      test_beer_row 3 (DecimalTuple False 1050 (- 2))
                        (DecimalTuple False 1155 (- 2)) (DecimalTuple False 1100000 (- 6))],
              next_id = 4\<rparr>,
       notified = [], requested = [eur_url]\<rparr>)"
  using mul_1050_11 price_column_11550 rate_column_11
  by (simp add: service_defs rate_defs example_defs)




text \<open>
  C6 (as amended). \<^verbatim>\<open>create_beer_entry\<close> never raises and makes one request to the rate
  provider, whatever happens. When \<^verbatim>\<open>calculate_prices\<close> raises, or the session cannot be
  opened, or the add or the commit raises (a commit also raises when the engine rejects
  a value of the row), it returns \<^verbatim>\<open>None\<close>, leaves the table as it was and notifies
  once.
\<close>

theorem create_failure_leaves_store:
  "(\<exists>r. fst (create_beer_entry env entry_data w) = Inr r)
   \<and> requested (snd (create_beer_entry env entry_data w))
       = requested w @ [BASE_URL @ ''/'' @ currency_value (original_currency entry_data)
                          @ ''/'' @ isoformat (purchase_date entry_data)]
   \<and> ((\<exists>e. fst (calculate_prices env (original_price entry_data) (original_currency entry_data)
                  (purchase_date entry_data) w) = Inl e)
        \<or> OpenSession \<in> faults env \<or> Add \<in> faults env \<or> Commit \<in> faults env
      \<longrightarrow> fst (create_beer_entry env entry_data w) = Inr None
          \<and> db (snd (create_beer_entry env entry_data w)) = db w
          \<and> length (notified (snd (create_beer_entry env entry_data w))) = length (notified w) + 1)
   \<and> (\<forall>eur usd rate.
         fst (calculate_prices env (original_price entry_data) (original_currency entry_data)
                (purchase_date entry_data) w) = Inr (eur, usd, rate)
         \<and> column_values env (beer_entry env entry_data eur usd rate) = None
      \<longrightarrow> fst (create_beer_entry env entry_data w) = Inr None
          \<and> db (snd (create_beer_entry env entry_data w)) = db w
          \<and> length (notified (snd (create_beer_entry env entry_data w))) = length (notified w) + 1)"
proof -
  let ?calc = "calculate_prices env (original_price entry_data) (original_currency entry_data)
                 (purchase_date entry_data) w"
  obtain res w1 where calc: "?calc = (res, w1)"
    by (cases ?calc)
  have "w1 = w\<lparr>requested := requested w
        @ [BASE_URL @ ''/'' @ currency_value (original_currency entry_data)
             @ ''/'' @ isoformat (purchase_date entry_data)]\<rparr>"
    using calculate_prices_world [of env "original_price entry_data" "original_currency entry_data"
        "purchase_date entry_data" w] calc by simp
  then have w1: "db w1 = db w" "notified w1 = notified w"
      "requested w1 = requested w @ [BASE_URL @ ''/'' @ currency_value (original_currency entry_data)
             @ ''/'' @ isoformat (purchase_date entry_data)]"
    by simp_all
  show ?thesis
  proof (cases res)
    case (Inl e)
    with calc w1 show ?thesis
      by (simp add: create_beer_entry_def)
  next
    case (Inr t)
    obtain eur usd rate where t: "t = (eur, usd, rate)"
      by (cases t)
    let ?b = "beer_entry env entry_data eur usd rate"
    obtain r s' where acr: "add_commit_refresh env ?b (db w1) = (r, s')"
      by (cases "add_commit_refresh env ?b (db w1)")
    have early: "OpenSession \<in> faults env \<or> Add \<in> faults env \<or> Commit \<in> faults env
          \<or> column_values env ?b = None
        \<Longrightarrow> (\<exists>e. r = Inl e) \<and> s' = db w"
      using add_commit_refresh_not_committed [of env ?b "db w1"] acr w1(1) by auto
    have run: "create_beer_entry env entry_data w =
        (case r of
           Inl e \<Rightarrow> (Inr None, w1\<lparr>db := s', notified := notified w1
                                   @ [(''Error creating beer entry: '', e)]\<rparr>)
         | Inr row \<Rightarrow> (Inr (Some row), w1\<lparr>db := s'\<rparr>))"
      using calc Inr t acr by (simp add: create_beer_entry_def)
    show ?thesis
      using early by (cases r) (auto simp: run calc Inr t w1)
  qed
qed

text \<open>
  On the table of two beers: a commit that raises, a provider whose body
  \<^verbatim>\<open>{"rates": null}\<close> makes \<^verbatim>\<open>calculate_prices\<close> raise, and a rate \<^verbatim>\<open>1e400\<close> whose
  infinite price the engine rejects.
\<close>

theorem create_failure_leaves_store_witness:
  "Commit \<in> faults (provider_env eur_url
        (rates_response ''USD'' (JNumber (DecimalTuple False 11 (- 1)))) {Commit})
   \<and> fst (create_beer_entry
        (provider_env eur_url (rates_response ''USD'' (JNumber (DecimalTuple False 11 (- 1))))
           {Commit})
        test_beer two_beers) = Inr None
   \<and> db (snd (create_beer_entry
        (provider_env eur_url (rates_response ''USD'' (JNumber (DecimalTuple False 11 (- 1))))
           {Commit})
        test_beer two_beers)) = db two_beers
   \<and> requested (snd (create_beer_entry
        (provider_env eur_url (rates_response ''USD'' (JNumber (DecimalTuple False 11 (- 1))))
           {Commit})
        test_beer two_beers)) = [eur_url]
   \<and> fst (calculate_prices
        (provider_env eur_url (Response 200 (Some (JObject [(''rates'', JNull)]))) {})
        (original_price test_beer) (original_currency test_beer) (purchase_date test_beer)
        two_beers) = Inl AttributeError
   \<and> fst (create_beer_entry
        (provider_env eur_url (Response 200 (Some (JObject [(''rates'', JNull)]))) {})
        test_beer two_beers) = Inr None
   \<and> db (snd (create_beer_entry
        (provider_env eur_url (Response 200 (Some (JObject [(''rates'', JNull)]))) {})
        test_beer two_beers)) = db two_beers
   \<and> fst (calculate_prices
        (provider_env eur_url (rates_response ''USD'' (JNumber (Infinity False))) {})
        (original_price test_beer) (original_currency test_beer) (purchase_date test_beer)
        two_beers)
      = Inr (DecimalTuple False 1050 (- 2), Infinity False, Infinity False)
   \<and> column_values (provider_env eur_url (rates_response ''USD'' (JNumber (Infinity False))) {})
        (beer_entry (provider_env eur_url (rates_response ''USD'' (JNumber (Infinity False))) {})
           test_beer (DecimalTuple False 1050 (- 2)) (Infinity False) (Infinity False))
      = None
   \<and> fst (create_beer_entry
        (provider_env eur_url (rates_response ''USD'' (JNumber (Infinity False))) {})
        test_beer two_beers) = Inr None
   \<and> db (snd (create_beer_entry
        (provider_env eur_url (rates_response ''USD'' (JNumber (Infinity False))) {})
        test_beer two_beers)) = db two_beers"
proof -
  let ?commit = "provider_env eur_url (rates_response ''USD'' (JNumber (DecimalTuple False 11 (- 1))))
           {Commit}"
  let ?null = "provider_env eur_url (Response 200 (Some (JObject [(''rates'', JNull)]))) {}"
  let ?inf = "provider_env eur_url (rates_response ''USD'' (JNumber (Infinity False))) {}"
  have commit: "Commit \<in> faults ?commit"
    by (simp add: provider_env_def)
  have raised: "fst (calculate_prices ?null
        (original_price test_beer) (original_currency test_beer) (purchase_date test_beer)
        two_beers) = Inl AttributeError"
    by (simp add: calculate_prices_def rate_defs example_defs)
  have prices: "fst (calculate_prices ?inf
        (original_price test_beer) (original_currency test_beer) (purchase_date test_beer)
        two_beers)
      = Inr (DecimalTuple False 1050 (- 2), Infinity False, Infinity False)"
    by (simp add: calculate_prices_def rate_defs example_defs mul_1050_Infinity)
  have rejected: "column_values ?inf
        (beer_entry ?inf test_beer (DecimalTuple False 1050 (- 2)) (Infinity False) (Infinity False))
      = None"
    by (simp add: column_values_def beer_entry_def provider_env_def test_beer_def)
  from create_failure_leaves_store [of ?commit test_beer two_beers]
    create_failure_leaves_store [of ?null test_beer two_beers]
    create_failure_leaves_store [of ?inf test_beer two_beers]
    commit raised prices rejected
  show ?thesis
    by (simp add: rate_defs example_defs)
qed

text \<open>
  C6 as stated, for a failure of any kind, fails when the refresh after a successful
  commit raises: \<^verbatim>\<open>create_beer_entry\<close> returns \<^verbatim>\<open>None\<close> and the row is in the table.
\<close>

theorem refresh_failure_after_commit:
  "fst (create_beer_entry
          (provider_env eur_url (rates_response ''USD'' (JNumber (DecimalTuple False 11 (- 1))))
             {Refresh})
          test_beer empty_world)
     = Inr None
   \<and> rows (db (snd (create_beer_entry
          (provider_env eur_url (rates_response ''USD'' (JNumber (DecimalTuple False 11 (- 1))))
             {Refresh})
          test_beer empty_world)))
     = [test_beer_row 1 (DecimalTuple False 1050 (- 2)) (DecimalTuple False 1155 (- 2))
          (DecimalTuple False 1100000 (- 6))]
   \<and> rows (db empty_world) = []"
  using mul_1050_11 price_column_11550 rate_column_11
  by (simp add: service_defs rate_defs example_defs)

section \<open>Deleting an entry\<close>

text \<open>
  The session block of \<^verbatim>\<open>delete_beer_entry\<close> when the database raises nothing.
\<close>

lemma get_delete_commit_no_faults:
  assumes "faults env = {}"
  shows "get_delete_commit env entry_id s =
     (case get_row entry_id s of
        Some entry \<Rightarrow> (Inr True, delete_row entry_id s)
      | None \<Rightarrow> (Inr False, s))"
  using assms by (simp add: get_delete_commit_def session_exit_def split: option.splits)

text \<open>
  C7. On a table with a primary key and a database that raises nothing:
  \<^verbatim>\<open>delete_beer_entry\<close> on an identifier that no row has returns \<^verbatim>\<open>False\<close> and leaves
  the world as it was; on the identifier of a row it returns \<^verbatim>\<open>True\<close> and the table is
  the old one with exactly that row removed, every other row in place and unchanged.
\<close>

theorem delete_beer_entry_effect:
  assumes "wf_store (db w)" and "faults env = {}"
  shows "(Some entry_id \<notin> id_pk ` set (rows (db w))
            \<longrightarrow> delete_beer_entry env entry_id w = (Inr False, w))
    \<and> (\<forall>e \<in> set (rows (db w)). id_pk e = Some entry_id \<longrightarrow>
          delete_beer_entry env entry_id w
            = (Inr True, w\<lparr>db := (db w)\<lparr>rows := remove1 e (rows (db w))\<rparr>\<rparr>)
          \<and> e \<notin> set (remove1 e (rows (db w)))
          \<and> (\<forall>r \<in> set (rows (db w)). r \<noteq> e \<longrightarrow> r \<in> set (remove1 e (rows (db w)))))"
proof (intro conjI impI ballI)
  assume "Some entry_id \<notin> id_pk ` set (rows (db w))"
  then have "get_row entry_id (db w) = None"
    by (simp add: get_row_None_iff)
  then show "delete_beer_entry env entry_id w = (Inr False, w)"
    by (simp add: delete_beer_entry_def get_delete_commit_no_faults [OF assms(2)])
next
  fix e
  assume e: "e \<in> set (rows (db w))" "id_pk e = Some entry_id"
  have found: "get_row entry_id (db w) = Some e"
    using get_row_unique [OF assms(1) e] .
  have "delete_row entry_id (db w) = (db w)\<lparr>rows := remove1 e (rows (db w))\<rparr>"
    using rows_delete_row [OF assms(1) e] by (simp add: delete_row_def)
  with found show "delete_beer_entry env entry_id w
      = (Inr True, w\<lparr>db := (db w)\<lparr>rows := remove1 e (rows (db w))\<rparr>\<rparr>)"
    by (simp add: delete_beer_entry_def get_delete_commit_no_faults [OF assms(2)])
  show "e \<notin> set (remove1 e (rows (db w)))"
    using wf_store_distinct_rows [OF assms(1)] by simp
next
  fix e r
  assume "r \<in> set (rows (db w))" "r \<noteq> e"
  then show "r \<in> set (remove1 e (rows (db w)))"
    by simp
qed

text \<open>
  On the table of two beers: the identifier 999 is absent, the identifier 1 is that of
  "Beer One", and "Beer Two" stays.
\<close>

theorem delete_beer_entry_effect_witness:
  "wf_store (db two_beers)
   \<and> faults (provider_env eur_url TransportError {}) = {}
   \<and> Some 999 \<notin> id_pk ` set (rows (db two_beers))
   \<and> delete_beer_entry (provider_env eur_url TransportError {}) 999 two_beers = (Inr False, two_beers)
   \<and> beer_one \<in> set (rows (db two_beers)) \<and> id_pk beer_one = Some 1
   \<and> delete_beer_entry (provider_env eur_url TransportError {}) 1 two_beers
       = (Inr True, two_beers\<lparr>db := \<lparr>rows = [beer_two], next_id = 3\<rparr>\<rparr>)"
proof -
  have nf: "faults (provider_env eur_url TransportError {}) = {}"
    by (simp add: provider_env_def)
  have absent: "Some 999 \<notin> id_pk ` set (rows (db two_beers))"
    by (simp add: two_beers_def beer_one_def beer_two_def)
  have present: "beer_one \<in> set (rows (db two_beers))" "id_pk beer_one = Some 1"
    by (simp_all add: two_beers_def beer_one_def)
  have rest: "(db two_beers)\<lparr>rows := remove1 beer_one (rows (db two_beers))\<rparr>
      = \<lparr>rows = [beer_two], next_id = 3\<rparr>"
    by (simp add: two_beers_def)
  from delete_beer_entry_effect [OF wf_store_two_beers nf, of 999]
    delete_beer_entry_effect [OF wf_store_two_beers nf, of 1]
    absent present rest wf_store_two_beers nf
  show ?thesis by simp
qed

text \<open>
  C10. \<^verbatim>\<open>delete_beer_entry\<close> never raises: it always returns a boolean. Whenever its
  session block raises, and in particular whenever the database raises on opening the
  session, on the lookup, on the removal, on the commit or on closing, it returns
  \<^verbatim>\<open>False\<close>, which is also what it returns for an identifier that no row has.
\<close>

theorem delete_beer_entry_never_raises:
  "(\<exists>b. fst (delete_beer_entry env entry_id w) = Inr b)
   \<and> ((\<exists>e. fst (get_delete_commit env entry_id (db w)) = Inl e)
        \<longrightarrow> fst (delete_beer_entry env entry_id w) = Inr False)
   \<and> (OpenSession \<in> faults env \<or> Get \<in> faults env \<or> Delete \<in> faults env
        \<or> Commit \<in> faults env \<or> Close \<in> faults env
        \<longrightarrow> fst (delete_beer_entry env entry_id w) = Inr False)
   \<and> (get_row entry_id (db w) = None \<longrightarrow> fst (delete_beer_entry env entry_id w) = Inr False)"
proof -
  obtain r s' where block: "get_delete_commit env entry_id (db w) = (r, s')"
    by (cases "get_delete_commit env entry_id (db w)")
  have run: "fst (delete_beer_entry env entry_id w) = (case r of Inl e \<Rightarrow> Inr False | Inr b \<Rightarrow> Inr b)"
    using block by (simp add: delete_beer_entry_def split: sum.splits)
  have faulty: "OpenSession \<in> faults env \<or> Get \<in> faults env \<or> Delete \<in> faults env
        \<or> Commit \<in> faults env \<or> Close \<in> faults env \<Longrightarrow> r = Inr False \<or> (\<exists>e. r = Inl e)"
    using block
    by (auto simp: get_delete_commit_def session_exit_def split: if_splits option.splits)
  have absent: "get_row entry_id (db w) = None \<Longrightarrow> r = Inr False \<or> (\<exists>e. r = Inl e)"
    using block
    by (auto simp: get_delete_commit_def session_exit_def split: if_splits)
  show ?thesis
    using faulty absent block by (cases r) (auto simp: run)
qed

text \<open>
  A commit that raises while deleting "Beer One", and the absent identifier 999.
\<close>

theorem delete_beer_entry_never_raises_witness:
  "Commit \<in> faults (provider_env eur_url TransportError {Commit})
   \<and> fst (get_delete_commit (provider_env eur_url TransportError {Commit}) 1 (db two_beers))
       = Inl (SQLAlchemyError Commit)
   \<and> fst (delete_beer_entry (provider_env eur_url TransportError {Commit}) 1 two_beers) = Inr False
   \<and> get_row 999 (db two_beers) = None
   \<and> fst (delete_beer_entry (provider_env eur_url TransportError {}) 999 two_beers) = Inr False"
proof -
  have commit: "Commit \<in> faults (provider_env eur_url TransportError {Commit})"
    by (simp add: provider_env_def)
  have raised: "fst (get_delete_commit (provider_env eur_url TransportError {Commit}) 1 (db two_beers))
       = Inl (SQLAlchemyError Commit)"
    by (simp add: service_defs example_defs)
  have absent: "get_row 999 (db two_beers) = None"
    by (simp add: service_defs example_defs)
  from delete_beer_entry_never_raises [of "provider_env eur_url TransportError {Commit}" 1 two_beers]
    delete_beer_entry_never_raises [of "provider_env eur_url TransportError {}" 999 two_beers]
    commit raised absent
  show ?thesis by simp
qed

section \<open>Listing the entries\<close>

lemma get_all_beer_entries_no_faults:
  assumes "faults env = {}"
  shows "get_all_beer_entries env w = (Inr (rows (db w)), w)"
  using assms by (simp add: get_all_beer_entries_def session_exit_def)

text \<open>
  C8 (as amended). On a table with a primary key, after a successful
  \<^verbatim>\<open>create_beer_entry\<close> a listing (by a database that raises nothing) returns the rows
  that were there before, in their order and unchanged, followed by the new entry; on a
  table that was empty it returns exactly the new entry. The new entry has the name,
  the currency and the date of the input, and its decimals are the input's price and the
  prices and the rate that \<^verbatim>\<open>calculate_prices\<close> returned, each as its column stores it
  (precision 10 and scale 2 for the prices, 15 and 6 for the rate). A listing without a
  creation returns the rows in insertion order.
\<close>

theorem create_then_list:
  assumes "wf_store (db w)"
    and "create_beer_entry env entry_data w = (Inr (Some e), w')"
    and "faults env' = {}"
  shows "get_all_beer_entries env' w' = (Inr (rows (db w) @ [e]), w')
    \<and> (rows (db w) = [] \<longrightarrow> fst (get_all_beer_entries env' w') = Inr [e])
    \<and> get_all_beer_entries env' w = (Inr (rows (db w)), w)
    \<and> beer_name e = beer_name entry_data
    \<and> original_currency e = original_currency entry_data
    \<and> purchase_date e = purchase_date entry_data
    \<and> to_column env 10 2 (original_price entry_data) = Some (original_price e)
    \<and> (\<exists>eur usd rate.
          fst (calculate_prices env (original_price entry_data) (original_currency entry_data)
                 (purchase_date entry_data) w) = Inr (eur, usd, rate)
          \<and> to_column env 10 2 eur = Some (eur_price e)
          \<and> to_column env 10 2 usd = Some (usd_price e)
          \<and> to_column env 15 6 rate = Some (exchange_rate e))"
proof -
  from created_entry_fields [OF assms(1,2)] obtain eur usd rate where
    calc: "fst (calculate_prices env (original_price entry_data) (original_currency entry_data)
            (purchase_date entry_data) w) = Inr (eur, usd, rate)"
    and cols: "to_column env 10 2 (original_price entry_data) = Some (original_price e)"
      "to_column env 10 2 eur = Some (eur_price e)"
      "to_column env 10 2 usd = Some (usd_price e)"
      "to_column env 15 6 rate = Some (exchange_rate e)"
    and fields: "beer_name e = beer_name entry_data"
      "original_currency e = original_currency entry_data"
      "purchase_date e = purchase_date entry_data"
    and rows: "rows (db w') = rows (db w) @ [e]"
    by blast
  have listed: "get_all_beer_entries env' w' = (Inr (rows (db w) @ [e]), w')"
    using get_all_beer_entries_no_faults [OF assms(3), of w'] rows by simp
  have before: "get_all_beer_entries env' w = (Inr (rows (db w)), w)"
    using get_all_beer_entries_no_faults [OF assms(3)] .
  have computed: "\<exists>eur usd rate.
          fst (calculate_prices env (original_price entry_data) (original_currency entry_data)
                 (purchase_date entry_data) w) = Inr (eur, usd, rate)
          \<and> to_column env 10 2 eur = Some (eur_price e)
          \<and> to_column env 10 2 usd = Some (usd_price e)
          \<and> to_column env 15 6 rate = Some (exchange_rate e)"
    using calc cols by blast
  show ?thesis
    using listed before fields cols(1) computed by simp
qed

text \<open>
  "Test Beer" created on the empty table and on the table of two beers.
\<close>

theorem create_then_list_witness:
  "wf_store (db empty_world) \<and> wf_store (db two_beers)
   \<and> faults (provider_env eur_url TransportError {}) = {}
   \<and> fst (create_beer_entry
        (provider_env eur_url (rates_response ''USD'' (JNumber (DecimalTuple False 11 (- 1)))) {})
        test_beer empty_world)
      = Inr (Some (test_beer_row 1 (DecimalTuple False 1050 (- 2)) (DecimalTuple False 1155 (- 2))
                     (DecimalTuple False 1100000 (- 6))))
   \<and> fst (get_all_beer_entries (provider_env eur_url TransportError {})
        (snd (create_beer_entry
          (provider_env eur_url (rates_response ''USD'' (JNumber (DecimalTuple False 11 (- 1)))) {})
          test_beer empty_world)))
      = Inr [test_beer_row 1 (DecimalTuple False 1050 (- 2)) (DecimalTuple False 1155 (- 2))
               (DecimalTuple False 1100000 (- 6))]
   \<and> fst (get_all_beer_entries (provider_env eur_url TransportError {}) two_beers)
      = Inr [beer_one, beer_two]
   \<and> fst (get_all_beer_entries (provider_env eur_url TransportError {})
        (snd (create_beer_entry
          (provider_env eur_url (rates_response ''USD'' (JNumber (DecimalTuple False 11 (- 1)))) {})
          test_beer two_beers)))
      = Inr [beer_one, beer_two,
             test_beer_row 3 (DecimalTuple False 1050 (- 2)) (DecimalTuple False 1155 (- 2))
               (DecimalTuple False 1100000 (- 6))]"
proof -
  let ?env = "provider_env eur_url (rates_response ''USD'' (JNumber (DecimalTuple False 11 (- 1)))) {}"
  let ?env' = "provider_env eur_url TransportError {}"
  have nf: "faults ?env' = {}"
    by (simp add: provider_env_def)
  note run0 = create_test_beer [OF mul_1050_11 price_column_11550 rate_column_11]
  have empty: "rows (db empty_world) = []"
    by (simp add: empty_world_def)
  have two: "rows (db two_beers) = [beer_one, beer_two]"
    by (simp add: two_beers_def)
  from create_then_list [OF wf_store_empty_world run0 nf]
    create_then_list [OF wf_store_two_beers create_test_beer_two_beers nf]
    wf_store_empty_world wf_store_two_beers nf run0 create_test_beer_two_beers empty two
  show ?thesis by simp
qed

text \<open>
  C8 as stated, with the fields of the listed entry matching the computed prices, fails
  when the provider gives the rate 1.0857: the computed price is 11.399850 and the
  listed entry has 11.40.
\<close>

theorem listed_price_is_rounded:
  "fst (calculate_prices
          (provider_env eur_url (rates_response ''USD'' (JNumber (DecimalTuple False 10857 (- 4)))) {})
          (original_price test_beer) (original_currency test_beer) (purchase_date test_beer)
          empty_world)
     = Inr (DecimalTuple False 1050 (- 2), DecimalTuple False 11399850 (- 6),
            DecimalTuple False 10857 (- 4))
   \<and> fst (create_beer_entry
          (provider_env eur_url (rates_response ''USD'' (JNumber (DecimalTuple False 10857 (- 4)))) {})
          test_beer empty_world)
     = Inr (Some (test_beer_row 1 (DecimalTuple False 1050 (- 2)) (DecimalTuple False 1140 (- 2))
                    (DecimalTuple False 1085700 (- 6))))
   \<and> fst (get_all_beer_entries
          (provider_env eur_url (rates_response ''USD'' (JNumber (DecimalTuple False 10857 (- 4)))) {})
          (snd (create_beer_entry
            (provider_env eur_url (rates_response ''USD'' (JNumber (DecimalTuple False 10857 (- 4)))) {})
            test_beer empty_world)))
     = Inr [test_beer_row 1 (DecimalTuple False 1050 (- 2)) (DecimalTuple False 1140 (- 2))
              (DecimalTuple False 1085700 (- 6))]
   \<and> usd_price (test_beer_row 1 (DecimalTuple False 1050 (- 2)) (DecimalTuple False 1140 (- 2))
                  (DecimalTuple False 1085700 (- 6)))
     = DecimalTuple False 1140 (- 2)
   \<and> decimal_eq (DecimalTuple False 1140 (- 2)) (DecimalTuple False 11399850 (- 6)) = Inr False"
proof -
  let ?env = "provider_env eur_url (rates_response ''USD'' (JNumber (DecimalTuple False 10857 (- 4)))) {}"
  have prices: "fst (calculate_prices ?env
          (original_price test_beer) (original_currency test_beer) (purchase_date test_beer)
          empty_world)
     = Inr (DecimalTuple False 1050 (- 2), DecimalTuple False 11399850 (- 6),
            DecimalTuple False 10857 (- 4))"
    by (simp add: calculate_prices_def rate_defs example_defs mul_1050_10857)
  note run = create_test_beer [OF mul_1050_10857 price_column_11399850 rate_column_10857]
  have nf: "faults ?env = {}"
    by (simp add: provider_env_def)
  show ?thesis
    using prices run get_all_beer_entries_no_faults [OF nf]
    by (simp add: test_beer_row_def)
qed

section \<open>Identifier and creation time\<close>






end
